theory Spec2Isabelle
  imports Complex_Main
begin

section \<open>The agent of src/lib/agent.ts\<close>

text \<open>
  JavaScript numbers are embedded as reals. Counters (age, forwardPasses, sizes and the
  step thresholds of the learning configuration) are naturals. The agent is an open
  system: what its collaborators hand back (the uniform draw of lodash's random, the
  action of Model.randomOutput, the Length of the experience store after remember, the
  mementos that sample returns, the settlement of the fit promise) is an argument of the
  embedded method, and every call the agent makes on the experience store and on
  Model.fit is appended to the field \<open>calls\<close>.
\<close>

subsection \<open>Tensors\<close>

text \<open>
  Every tensor the agent builds has one row: the encoder concatenates along axis 1 with
  the row \<open>tensor([[...]])\<close>, and the training label is \<open>tensor2d(_, [1, 3])\<close>. A
  tensor is embedded as the list of the entries of its row; \<open>tensor([])\<close> is the empty
  list. A batch (rows stacked by \<open>concat\<close> along axis 0) is a list of rows.
\<close>

type_synonym tensor = "real list"

datatype error =
    ConcatUndefined
  | ShapeMismatch
  | ReduceEmpty
  | HoleRead
  | FitFailed

text \<open>\<open>a.concat(b, 1)\<close> on one-row tensors.\<close>

definition concat1 :: "tensor \<Rightarrow> tensor \<Rightarrow> tensor" where
  "concat1 a b = a @ b"

text \<open>
  \<open>a.concat(b)\<close> (axis 0) on batches: tfjs asserts that the operands agree on every
  other axis, here the width of the rows, and throws otherwise.
\<close>

definition concat0 :: "tensor list \<Rightarrow> tensor list \<Rightarrow> error + tensor list" where
  "concat0 a b =
     (if list_all (\<lambda>rb. list_all (\<lambda>ra. length ra = length rb) a) b
      then Inr (a @ b) else Inl ShapeMismatch)"

text \<open>
  \<open>tensor2d(values, shape)\<close>: tfjs throws unless the number of values is the product
  of the shape. The agent calls it with one row only.
\<close>

definition tensor2d :: "real list \<Rightarrow> nat \<times> nat \<Rightarrow> error + tensor" where
  "tensor2d vals shape =
     (if length vals = fst shape * snd shape then Inr vals else Inl ShapeMismatch)"

subsection \<open>The collaborators\<close>

text \<open>
  The Result that Model.predict returns is read through getHighestValue and getValue
  only; the model is a parameter of every method that uses it.
\<close>

record result =
  getHighestValue :: real
  getValue :: "real list"

record model =
  predict :: "tensor \<Rightarrow> result"
  OutputSize :: nat

record memento =
  action :: real
  reward :: real
  state :: tensor
  nextState :: tensor

text \<open>The calls the agent makes: memory.remember, memory.sample, model.fit(x, y, {epochs, stepsPerEpoch}).\<close>

datatype call =
    is_Remember: Remember memento
  | is_Sample: Sample nat
  | is_Fit: Fit "tensor list" "tensor list" nat nat

text \<open>
  Modelled from the spec: TypedWindow of ./window, which is not among the sources. It is
  the spec's BoundedStatWindow: an ordered sequence of at most maxSize samples, with a
  minimum number of samples minSize for its average.
\<close>

record TypedWindow =
  samples :: "real list"
  maxSize :: nat
  minSize :: nat

text \<open>
  Modelled from the spec: the constructor of TypedWindow, called with the capacity and
  the minimum number of samples; a new window holds no sample.
\<close>

definition new_TypedWindow :: "nat \<Rightarrow> nat \<Rightarrow> TypedWindow" where
  "new_TypedWindow mx mn = \<lparr>samples = [], maxSize = mx, minSize = mn\<rparr>"

text \<open>
  Modelled from the spec: TypedWindow.add, which appends the sample and evicts the
  oldest one once maxSize is exceeded.
\<close>

definition add :: "real \<Rightarrow> TypedWindow \<Rightarrow> TypedWindow" where
  "add v w =
     (let xs = samples w @ [v]
      in w\<lparr>samples := (if maxSize w < length xs then tl xs else xs)\<rparr>)"

subsection \<open>Configuration and state\<close>

definition MEM_WINDOW_MIN_SIZE :: nat where
  "MEM_WINDOW_MIN_SIZE = 2"

definition HIST_WINDOW_SIZE :: nat where
  "HIST_WINDOW_SIZE = 1000"

definition HIST_WINDOW_MIN_SIZE :: nat where
  "HIST_WINDOW_MIN_SIZE = 10"

text \<open>
  The interfaces mark learningConfig and its fields optional; forward and backward read
  them unconditionally, so the embedding is of an agent configured with all of them.
\<close>

record LearningConfig =
  gamma :: real
  epsilon :: real
  epsilonDecay :: real
  epsilonMin :: real
  learningRate :: real
  learningTime :: nat
  learningStepsRandom :: nat

record AgentConfig =
  memorySize :: nat
  batchSize :: nat
  temporalWindow :: nat
  learningConfig :: LearningConfig

record TrackingInformation =
  age :: nat
  forwardPasses :: nat
  learning :: bool
  averageLoss :: real
  averageReward :: real

text \<open>
  The fields of the class. \<open>done_flag\<close> is the field \<open>done\<close>. A slot of a buffer
  is \<open>None\<close> while it is a hole of \<open>new Array(n)\<close>.
\<close>

record agent =
  done_flag :: bool
  track :: TrackingInformation
  currentReward :: real
  actionsBuffer :: "real option list"
  statesBuffer :: "tensor option list"
  inputsBuffer :: "tensor option list"
  rewardsHistory :: TypedWindow
  lossesHistory :: TypedWindow
  netInputWindowSize :: nat
  config :: AgentConfig
  calls :: "call list"

definition Agent :: "AgentConfig \<Rightarrow> agent" where
  "Agent cfg =
     (let n = max (temporalWindow cfg) MEM_WINDOW_MIN_SIZE
      in \<lparr>done_flag = False,
          track = \<lparr>age = 0, forwardPasses = 0, learning = True,
                   averageLoss = 0, averageReward = 0\<rparr>,
          currentReward = 0,
          actionsBuffer = replicate n None,
          statesBuffer = replicate n None,
          inputsBuffer = replicate n None,
          rewardsHistory = new_TypedWindow HIST_WINDOW_SIZE HIST_WINDOW_MIN_SIZE,
          lossesHistory = new_TypedWindow HIST_WINDOW_SIZE HIST_WINDOW_MIN_SIZE,
          netInputWindowSize = n,
          config = cfg,
          calls = []\<rparr>)"

text \<open>
  \<open>buffer[i]\<close> for a JavaScript index: a hole, a negative index and an index past the
  end all read undefined.
\<close>

definition slot :: "'a option list \<Rightarrow> int \<Rightarrow> 'a option" where
  "slot xs i = (if 0 \<le> i \<and> i < int (length xs) then xs ! nat i else None)"

text \<open>\<open>buffer.shift(); buffer.push(v)\<close>.\<close>

definition shift_push :: "'a \<Rightarrow> 'a option list \<Rightarrow> 'a option list" where
  "shift_push v xs = tl xs @ [Some v]"

subsection \<open>createNeuralNetInput and policy\<close>

text \<open>
  The row \<open>range(0, OutputSize).map(val => val == action ? 1.0 : 0.0)\<close>; no value
  equals an undefined action.
\<close>

definition action_row :: "nat \<Rightarrow> real option \<Rightarrow> tensor" where
  "action_row n a = map (\<lambda>val. if Some (real val) = a then 1 else 0) [0..<n]"

text \<open>
  The loop of createNeuralNetInput from counter \<open>i\<close> on. Concatenating an undefined
  state throws.
\<close>

function createNeuralNetInput_loop :: "model \<Rightarrow> agent \<Rightarrow> nat \<Rightarrow> tensor \<Rightarrow> error + tensor" where
  "createNeuralNetInput_loop M s i finalInput =
     (if i < temporalWindow (config s) then
        (case slot (statesBuffer s) (int (netInputWindowSize s) - 1 - int i) of
           None \<Rightarrow> Inl ConcatUndefined
         | Some st \<Rightarrow>
             createNeuralNetInput_loop M s (Suc i)
               (concat1 (concat1 finalInput st)
                  (action_row (OutputSize M)
                     (slot (actionsBuffer s) (int (netInputWindowSize s) - 1 - int i)))))
      else Inr finalInput)"
  by pat_completeness auto
termination
  by (relation "measure (\<lambda>(M, s, i, finalInput). temporalWindow (config s) - i)") auto

definition createNeuralNetInput :: "model \<Rightarrow> agent \<Rightarrow> tensor \<Rightarrow> error + tensor" where
  "createNeuralNetInput M s input = createNeuralNetInput_loop M s 0 input"

definition policy :: "model \<Rightarrow> tensor \<Rightarrow> real" where
  "policy M input = getHighestValue (predict M input)"

subsection \<open>forward\<close>

definition set_epsilon :: "real \<Rightarrow> agent \<Rightarrow> agent" where
  "set_epsilon e s =
     s\<lparr>config := (config s)\<lparr>learningConfig := (learningConfig (config s))\<lparr>epsilon := e\<rparr>\<rparr>\<rparr>"

text \<open>Lines 87 to 93 of forward: the decay of epsilon.\<close>

definition decay_epsilon :: "agent \<Rightarrow> agent" where
  "decay_epsilon s =
     (let lc = learningConfig (config s)
      in if age (track s) < learningTime lc then
           (if learningStepsRandom lc < age (track s) \<and> epsilonMin lc < epsilon lc
            then set_epsilon (epsilon lc * epsilonDecay lc) s
            else s)
         else s)"

text \<open>Lines 113 to 118 of forward: the three buffers are shifted and pushed.\<close>

definition push_buffers :: "real \<Rightarrow> tensor \<Rightarrow> tensor \<Rightarrow> agent \<Rightarrow> agent" where
  "push_buffers act input netInput s =
     s\<lparr>actionsBuffer := shift_push act (actionsBuffer s),
       statesBuffer := shift_push input (statesBuffer s),
       inputsBuffer := shift_push netInput (inputsBuffer s)\<rparr>"

text \<open>
  \<open>forward M u rnd input s\<close>: \<open>u\<close> is what \<open>random(0, 1, true)\<close> returns and
  \<open>rnd\<close> what \<open>model.randomOutput()\<close> returns, when they are called. The result is
  the agent after the call and the returned action, or the error thrown.
\<close>

definition forward :: "model \<Rightarrow> real \<Rightarrow> real \<Rightarrow> tensor \<Rightarrow> agent \<Rightarrow> agent \<times> (error + real)" where
  "forward M u rnd input s =
     (let s1 = s\<lparr>track := (track s)\<lparr>forwardPasses := forwardPasses (track s) + 1\<rparr>\<rparr>;
          s2 = decay_epsilon s1
      in if temporalWindow (config s2) < forwardPasses (track s2) then
           (case createNeuralNetInput M s2 input of
              Inl e \<Rightarrow> (s2, Inl e)
            | Inr netInput \<Rightarrow>
                (let act = (if u < epsilon (learningConfig (config s2)) then rnd
                            else policy M netInput)
                 in (push_buffers act input netInput s2, Inr act)))
         else (push_buffers rnd input [] s2, Inr rnd))"

subsection \<open>createInOutFromMemento, replay and backward\<close>

definition addReward :: "real \<Rightarrow> agent \<Rightarrow> agent" where
  "addReward v s = s\<lparr>currentReward := currentReward s + v\<rparr>"

definition setReward :: "real \<Rightarrow> agent \<Rightarrow> agent" where
  "setReward v s = s\<lparr>currentReward := v\<rparr>"

text \<open>The local \<open>target\<close> of createInOutFromMemento (lines 158 to 161).\<close>

definition target :: "model \<Rightarrow> agent \<Rightarrow> memento \<Rightarrow> real" where
  "target M s m =
     (if \<not> done_flag s
      then reward m + gamma (learningConfig (config s)) * getHighestValue (predict M (nextState m))
      else reward m)"

text \<open>
  \<open>future_target[memento.action] = target\<close> on the typed array that getValue hands
  back: a store at a key that is not an index inside the array changes no element.
\<close>

definition set_index :: "real list \<Rightarrow> real \<Rightarrow> real \<Rightarrow> real list" where
  "set_index xs a v =
     (if 0 \<le> a \<and> a = of_int \<lfloor>a\<rfloor> \<and> nat \<lfloor>a\<rfloor> < length xs then xs[nat \<lfloor>a\<rfloor> := v] else xs)"

definition createInOutFromMemento :: "model \<Rightarrow> agent \<Rightarrow> memento \<Rightarrow> error + (tensor \<times> tensor)" where
  "createInOutFromMemento M s m =
     (let future_target = set_index (getValue (predict M (state m))) (action m) (target M s m)
      in case tensor2d future_target (1, 3) of
           Inl e \<Rightarrow> Inl e
         | Inr y \<Rightarrow> Inr (state m, y))"

text \<open>\<open>sample.map(memento => createInOutFromMemento(memento))\<close>: the first throw ends the map.\<close>

fun map_mementos :: "model \<Rightarrow> agent \<Rightarrow> memento list \<Rightarrow> error + (tensor \<times> tensor) list" where
  "map_mementos M s [] = Inr []"
| "map_mementos M s (m # ms) =
     (case createInOutFromMemento M s m of
        Inl e \<Rightarrow> Inl e
      | Inr p \<Rightarrow> (case map_mementos M s ms of Inl e \<Rightarrow> Inl e | Inr ps \<Rightarrow> Inr (p # ps)))"

text \<open>
  \<open>reduce\<close> without an initial value: it throws on an empty array, starts from the first
  pair and calls the callback (x concatenated before y) on each later pair.
\<close>

fun reduce_from :: "tensor list \<times> tensor list \<Rightarrow> (tensor \<times> tensor) list \<Rightarrow> error + (tensor list \<times> tensor list)" where
  "reduce_from acc [] = Inr acc"
| "reduce_from acc (p # ps) =
     (case concat0 (fst acc) [fst p] of
        Inl e \<Rightarrow> Inl e
      | Inr X \<Rightarrow>
          (case concat0 (snd acc) [snd p] of
             Inl e \<Rightarrow> Inl e
           | Inr Y \<Rightarrow> reduce_from (X, Y) ps))"

definition reduce_pairs :: "(tensor \<times> tensor) list \<Rightarrow> error + (tensor list \<times> tensor list)" where
  "reduce_pairs ps =
     (case ps of [] \<Rightarrow> Inl ReduceEmpty | p # rest \<Rightarrow> reduce_from ([fst p], [snd p]) rest)"

text \<open>
  \<open>replay M batch s\<close>: \<open>batch\<close> is what \<open>memory.sample(batchSize)\<close> returns. The fit
  is dispatched and not awaited; the reward is reset in the same call.
\<close>

definition replay :: "model \<Rightarrow> memento list \<Rightarrow> agent \<Rightarrow> agent \<times> error option" where
  "replay M batch s =
     (let s1 = s\<lparr>calls := calls s @ [Sample (batchSize (config s))]\<rparr>
      in case map_mementos M s1 batch of
           Inl e \<Rightarrow> (s1, Some e)
         | Inr ps \<Rightarrow>
             (case reduce_pairs ps of
                Inl e \<Rightarrow> (s1, Some e)
              | Inr trainData \<Rightarrow>
                  (setReward 0 (s1\<lparr>calls := calls s1 @ [Fit (fst trainData) (snd trainData) 1 1]\<rparr>),
                   None)))"

text \<open>
  \<open>backward M len batch s\<close>: \<open>len\<close> is what \<open>memory.Length\<close> returns after remember.
  A hole read at line 132, 134 or 135 would put undefined into a Memento, a value the
  Memento type does not have; the embedding stops there with \<open>HoleRead\<close>, and
  \<open>run_backward_no_hole\<close> shows that no run from the constructor gets there.
\<close>

definition backward :: "model \<Rightarrow> nat \<Rightarrow> memento list \<Rightarrow> agent \<Rightarrow> agent \<times> error option" where
  "backward M len batch s =
     (let s1 = s\<lparr>rewardsHistory := add (currentReward s) (rewardsHistory s)\<rparr>;
          s2 = s1\<lparr>track := (track s1)\<lparr>age := age (track s1) + 1\<rparr>\<rparr>
      in if \<not> learning (track s2) \<or> forwardPasses (track s2) \<le> temporalWindow (config s2) + 1
         then (s2, None)
         else
           (case (slot (actionsBuffer s2) (int (netInputWindowSize s2) - int MEM_WINDOW_MIN_SIZE),
                  slot (inputsBuffer s2) (int (netInputWindowSize s2) - int MEM_WINDOW_MIN_SIZE),
                  slot (inputsBuffer s2) (int (netInputWindowSize s2) - 1)) of
              (Some a, Some st, Some nx) \<Rightarrow>
                (let s3 = s2\<lparr>calls := calls s2 @
                            [Remember \<lparr>action = a, reward = currentReward s2,
                                       state = st, nextState = nx\<rparr>]\<rparr>
                 in if len \<le> learningStepsRandom (learningConfig (config s3)) then (s3, None)
                    else replay M batch s3)
            | _ \<Rightarrow> (s2, Some HoleRead)))"

text \<open>
  The two callbacks of \<open>.then\<close> at lines 150 to 153, run when the fit promise settles:
  \<open>Resolved l\<close> carries \<open>result.history.loss[0]\<close>.
\<close>

datatype fit_outcome = Resolved real | Rejected

definition fit_settled :: "fit_outcome \<Rightarrow> agent \<Rightarrow> agent \<times> error option" where
  "fit_settled out s =
     (case out of
        Resolved l \<Rightarrow> (s\<lparr>lossesHistory := add l (lossesHistory s)\<rparr>, None)
      | Rejected \<Rightarrow> (s, Some FitFailed))"

subsection \<open>Runs of the agent\<close>

datatype op =
    Forward real real tensor
  | Backward nat "memento list"
  | AddReward real
  | SetReward real
  | FitSettled fit_outcome

text \<open>The agent after one operation, whether it returned or threw.\<close>

fun step :: "model \<Rightarrow> agent \<Rightarrow> op \<Rightarrow> agent" where
  "step M s (Forward u rnd input) = fst (forward M u rnd input s)"
| "step M s (Backward len batch) = fst (backward M len batch s)"
| "step M s (AddReward v) = addReward v s"
| "step M s (SetReward v) = setReward v s"
| "step M s (FitSettled out) = fst (fit_settled out s)"

definition run :: "model \<Rightarrow> op list \<Rightarrow> agent \<Rightarrow> agent" where
  "run M ops s = foldl (step M) s ops"

definition new_calls :: "agent \<Rightarrow> agent \<Rightarrow> call list" where
  "new_calls s s' = drop (length (calls s)) (calls s')"

subsection \<open>Example collaborators and configurations\<close>

text \<open>
  Models that predict the same value vector for every input. The highest value is 1 and
  stands at index 1, so the examples do not depend on which of the two getHighestValue
  reports.
\<close>

definition three_actions :: model where
  "three_actions =
     \<lparr>predict = (\<lambda>x. \<lparr>getHighestValue = 1, getValue = [0, 1, 1 / 2]\<rparr>), OutputSize = 3\<rparr>"

definition two_actions :: model where
  "two_actions =
     \<lparr>predict = (\<lambda>x. \<lparr>getHighestValue = 1, getValue = [0, 1]\<rparr>), OutputSize = 2\<rparr>"

definition learning_example :: "real \<Rightarrow> real \<Rightarrow> real \<Rightarrow> nat \<Rightarrow> nat \<Rightarrow> LearningConfig" where
  "learning_example eps dec mn lt lsr =
     \<lparr>gamma = 1 / 2, epsilon = eps, epsilonDecay = dec, epsilonMin = mn,
      learningRate = 1 / 8, learningTime = lt, learningStepsRandom = lsr\<rparr>"

definition config_example :: "nat \<Rightarrow> LearningConfig \<Rightarrow> AgentConfig" where
  "config_example tw lc =
     \<lparr>memorySize = 100, batchSize = 2, temporalWindow = tw, learningConfig = lc\<rparr>"

text \<open>
  An agent without history (temporalWindow 0) after two forward calls that chose the
  random actions 2 and 0 on the observations [1] and [2], and a reward of 5.
\<close>

definition two_steps :: "model \<Rightarrow> agent" where
  "two_steps M =
     run M
       [Forward (1 / 4) 2 [1], Forward (1 / 4) 0 [2], AddReward 5]
       (Agent (config_example 0 (learning_example (1 / 2) (1 / 2) (1 / 4) 10 0)))"

text \<open>The memento that backward builds from \<open>two_steps\<close>.\<close>

definition first_memento :: memento where
  "first_memento = \<lparr>action = 2, reward = 5, state = [1], nextState = [2]\<rparr>"

text \<open>An agent with temporalWindow 2 after two forward calls (both in the warm-up).\<close>

definition two_frames :: agent where
  "two_frames =
     run three_actions
       [Forward (1 / 4) 2 [1], Forward (1 / 4) 0 [2]]
       (Agent (config_example 2 (learning_example (1 / 2) (1 / 2) (1 / 4) 10 0)))"

text \<open>An agent with temporalWindow 1 after its first forward call.\<close>

definition one_frame :: agent where
  "one_frame =
     run three_actions
       [Forward (1 / 4) 0 [1]]
       (Agent (config_example 1 (learning_example (1 / 2) (1 / 2) (1 / 4) 10 0)))"

text \<open>
  Modelled from the spec: the experience store of ./memory, which is not among the
  sources. Section 6 of the spec: sample(batchSize) returns a sequence of mementos no
  longer than the current size of the store.
\<close>

definition sample_within :: "nat \<Rightarrow> memento list \<Rightarrow> bool" where
  "sample_within len batch = (length batch \<le> len)"

text \<open>The agent of \<open>two_steps\<close> with learning switched off.\<close>

definition frozen_steps :: agent where
  "frozen_steps =
     (two_steps three_actions)
       \<lparr>track := (track (two_steps three_actions))\<lparr>learning := False\<rparr>\<rparr>"

subsection \<open>The buffers of a running agent\<close>

text \<open>
  The invariant of the three buffers: they keep the length netInputWindowSize, and the
  slots of the last forwardPasses pushes are no holes.
\<close>

definition filled :: "agent \<Rightarrow> bool" where
  "filled s =
     (netInputWindowSize s = max (temporalWindow (config s)) MEM_WINDOW_MIN_SIZE \<and>
      length (actionsBuffer s) = netInputWindowSize s \<and>
      length (statesBuffer s) = netInputWindowSize s \<and>
      length (inputsBuffer s) = netInputWindowSize s \<and>
      list_all
        (\<lambda>j. slot (actionsBuffer s) (int (netInputWindowSize s) - 1 - int j) \<noteq> None \<and>
             slot (statesBuffer s) (int (netInputWindowSize s) - 1 - int j) \<noteq> None \<and>
             slot (inputsBuffer s) (int (netInputWindowSize s) - 1 - int j) \<noteq> None)
        [0..<min (forwardPasses (track s)) (netInputWindowSize s)])"

section \<open>Properties of the embedding\<close>

subsection \<open>What each method leaves unchanged\<close>

lemma decay_epsilon_other:
  "track (decay_epsilon s) = track s"
  "done_flag (decay_epsilon s) = done_flag s"
  "currentReward (decay_epsilon s) = currentReward s"
  "actionsBuffer (decay_epsilon s) = actionsBuffer s"
  "statesBuffer (decay_epsilon s) = statesBuffer s"
  "inputsBuffer (decay_epsilon s) = inputsBuffer s"
  "rewardsHistory (decay_epsilon s) = rewardsHistory s"
  "lossesHistory (decay_epsilon s) = lossesHistory s"
  "netInputWindowSize (decay_epsilon s) = netInputWindowSize s"
  "calls (decay_epsilon s) = calls s"
  by (simp_all add: decay_epsilon_def set_epsilon_def Let_def)

lemma decay_epsilon_config:
  "memorySize (config (decay_epsilon s)) = memorySize (config s)"
  "batchSize (config (decay_epsilon s)) = batchSize (config s)"
  "temporalWindow (config (decay_epsilon s)) = temporalWindow (config s)"
  "gamma (learningConfig (config (decay_epsilon s))) = gamma (learningConfig (config s))"
  "epsilonDecay (learningConfig (config (decay_epsilon s))) = epsilonDecay (learningConfig (config s))"
  "epsilonMin (learningConfig (config (decay_epsilon s))) = epsilonMin (learningConfig (config s))"
  "learningRate (learningConfig (config (decay_epsilon s))) = learningRate (learningConfig (config s))"
  "learningTime (learningConfig (config (decay_epsilon s))) = learningTime (learningConfig (config s))"
  "learningStepsRandom (learningConfig (config (decay_epsilon s))) = learningStepsRandom (learningConfig (config s))"
  by (simp_all add: decay_epsilon_def set_epsilon_def Let_def)

lemma decay_epsilon_epsilon:
  "epsilon (learningConfig (config (decay_epsilon s))) =
     (if age (track s) < learningTime (learningConfig (config s)) \<and>
         learningStepsRandom (learningConfig (config s)) < age (track s) \<and>
         epsilonMin (learningConfig (config s)) < epsilon (learningConfig (config s))
      then epsilon (learningConfig (config s)) * epsilonDecay (learningConfig (config s))
      else epsilon (learningConfig (config s)))"
  by (simp add: decay_epsilon_def set_epsilon_def Let_def)

lemma forward_config:
  "config (fst (forward M u rnd input s)) = config (decay_epsilon s)"
  by (simp add: forward_def Let_def push_buffers_def decay_epsilon_def set_epsilon_def
      split: sum.splits)

lemma forward_other:
  "track (fst (forward M u rnd input s)) = (track s)\<lparr>forwardPasses := forwardPasses (track s) + 1\<rparr>"
  "done_flag (fst (forward M u rnd input s)) = done_flag s"
  "currentReward (fst (forward M u rnd input s)) = currentReward s"
  "rewardsHistory (fst (forward M u rnd input s)) = rewardsHistory s"
  "lossesHistory (fst (forward M u rnd input s)) = lossesHistory s"
  "netInputWindowSize (fst (forward M u rnd input s)) = netInputWindowSize s"
  "calls (fst (forward M u rnd input s)) = calls s"
  by (simp_all add: forward_def Let_def push_buffers_def decay_epsilon_other split: sum.splits)

lemma replay_calls:
  "calls (fst (replay M batch s)) = calls s @ [Sample (batchSize (config s))] \<or>
   (\<exists>X Y. calls (fst (replay M batch s)) = calls s @ [Sample (batchSize (config s)), Fit X Y 1 1])"
  by (simp add: replay_def Let_def setReward_def split: sum.splits)

lemma replay_other:
  "track (fst (replay M batch s)) = track s"
  "done_flag (fst (replay M batch s)) = done_flag s"
  "config (fst (replay M batch s)) = config s"
  "actionsBuffer (fst (replay M batch s)) = actionsBuffer s"
  "statesBuffer (fst (replay M batch s)) = statesBuffer s"
  "inputsBuffer (fst (replay M batch s)) = inputsBuffer s"
  "rewardsHistory (fst (replay M batch s)) = rewardsHistory s"
  "lossesHistory (fst (replay M batch s)) = lossesHistory s"
  "netInputWindowSize (fst (replay M batch s)) = netInputWindowSize s"
  by (simp_all add: replay_def Let_def setReward_def split: sum.splits)

lemma backward_other:
  "track (fst (backward M len batch s)) = (track s)\<lparr>age := age (track s) + 1\<rparr>"
  "done_flag (fst (backward M len batch s)) = done_flag s"
  "config (fst (backward M len batch s)) = config s"
  "actionsBuffer (fst (backward M len batch s)) = actionsBuffer s"
  "statesBuffer (fst (backward M len batch s)) = statesBuffer s"
  "inputsBuffer (fst (backward M len batch s)) = inputsBuffer s"
  "rewardsHistory (fst (backward M len batch s)) = add (currentReward s) (rewardsHistory s)"
  "lossesHistory (fst (backward M len batch s)) = lossesHistory s"
  "netInputWindowSize (fst (backward M len batch s)) = netInputWindowSize s"
  by (simp_all add: backward_def Let_def replay_other split: option.splits prod.splits)

lemma fit_settled_other:
  "track (fst (fit_settled out s)) = track s"
  "done_flag (fst (fit_settled out s)) = done_flag s"
  "config (fst (fit_settled out s)) = config s"
  "actionsBuffer (fst (fit_settled out s)) = actionsBuffer s"
  "statesBuffer (fst (fit_settled out s)) = statesBuffer s"
  "inputsBuffer (fst (fit_settled out s)) = inputsBuffer s"
  "rewardsHistory (fst (fit_settled out s)) = rewardsHistory s"
  "netInputWindowSize (fst (fit_settled out s)) = netInputWindowSize s"
  "calls (fst (fit_settled out s)) = calls s"
  "currentReward (fst (fit_settled out s)) = currentReward s"
  by (simp_all add: fit_settled_def split: fit_outcome.splits)

subsection \<open>Runs\<close>

lemma run_Nil: "run M [] s = s"
  by (simp add: run_def)

lemma run_Cons: "run M (x # ops) s = run M ops (step M s x)"
  by (simp add: run_def)

lemma run_append: "run M (ops @ ops') s = run M ops' (run M ops s)"
  by (simp add: run_def)

lemma step_done_flag: "done_flag (step M s x) = done_flag s"
  by (cases x)
    (simp_all add: forward_other backward_other fit_settled_other addReward_def setReward_def)

lemma run_done_flag: "done_flag (run M ops s) = done_flag s"
  by (induction ops arbitrary: s) (simp_all add: run_Nil run_Cons step_done_flag)

lemma step_schedule:
  "gamma (learningConfig (config (step M s x))) = gamma (learningConfig (config s))"
  "epsilonDecay (learningConfig (config (step M s x))) = epsilonDecay (learningConfig (config s))"
  "epsilonMin (learningConfig (config (step M s x))) = epsilonMin (learningConfig (config s))"
  "learningTime (learningConfig (config (step M s x))) = learningTime (learningConfig (config s))"
  "learningStepsRandom (learningConfig (config (step M s x))) = learningStepsRandom (learningConfig (config s))"
  "temporalWindow (config (step M s x)) = temporalWindow (config s)"
  "netInputWindowSize (step M s x) = netInputWindowSize s"
  by (cases x;
      simp add: forward_config forward_other decay_epsilon_config backward_other
        fit_settled_other addReward_def setReward_def)+

lemma run_schedule:
  "gamma (learningConfig (config (run M ops s))) = gamma (learningConfig (config s))"
  "epsilonDecay (learningConfig (config (run M ops s))) = epsilonDecay (learningConfig (config s))"
  "epsilonMin (learningConfig (config (run M ops s))) = epsilonMin (learningConfig (config s))"
  "learningTime (learningConfig (config (run M ops s))) = learningTime (learningConfig (config s))"
  "learningStepsRandom (learningConfig (config (run M ops s))) = learningStepsRandom (learningConfig (config s))"
  "temporalWindow (config (run M ops s)) = temporalWindow (config s)"
  "netInputWindowSize (run M ops s) = netInputWindowSize s"
  by (induction ops arbitrary: s; simp add: run_Nil run_Cons step_schedule)+

lemma Agent_fields:
  "done_flag (Agent cfg) = False"
  "config (Agent cfg) = cfg"
  "netInputWindowSize (Agent cfg) = max (temporalWindow cfg) 2"
  "forwardPasses (track (Agent cfg)) = 0"
  "age (track (Agent cfg)) = 0"
  "learning (track (Agent cfg))"
  "calls (Agent cfg) = []"
  "currentReward (Agent cfg) = 0"
  by (simp_all add: Agent_def Let_def MEM_WINDOW_MIN_SIZE_def)

subsection \<open>Epsilon along a run\<close>

lemma step_epsilon:
  "epsilon (learningConfig (config (step M s x))) =
     (case x of
        Forward u rnd input \<Rightarrow> epsilon (learningConfig (config (decay_epsilon s)))
      | _ \<Rightarrow> epsilon (learningConfig (config s)))"
  by (cases x)
    (simp_all add: forward_config backward_other fit_settled_other addReward_def setReward_def)

lemma decay_epsilon_le:
  assumes "0 \<le> epsilonMin (learningConfig (config s))"
    and "epsilonDecay (learningConfig (config s)) \<le> 1"
  shows "epsilon (learningConfig (config (decay_epsilon s))) \<le> epsilon (learningConfig (config s))"
proof -
  let ?lc = "learningConfig (config s)"
  have "epsilon ?lc * epsilonDecay ?lc \<le> epsilon ?lc" if "epsilonMin ?lc < epsilon ?lc"
  proof -
    from that assms(1) have "0 \<le> epsilon ?lc" by linarith
    then have "epsilon ?lc * epsilonDecay ?lc \<le> epsilon ?lc * 1"
      using assms(2) by (rule mult_left_mono[rotated])
    then show ?thesis by simp
  qed
  then show ?thesis by (simp add: decay_epsilon_epsilon)
qed

lemma decay_epsilon_lower:
  assumes "0 < epsilonDecay (learningConfig (config s))"
    and "b \<le> epsilon (learningConfig (config s))"
    and "b \<le> epsilonMin (learningConfig (config s)) * epsilonDecay (learningConfig (config s))"
  shows "b \<le> epsilon (learningConfig (config (decay_epsilon s)))"
proof -
  let ?lc = "learningConfig (config s)"
  have "b \<le> epsilon ?lc * epsilonDecay ?lc" if "epsilonMin ?lc < epsilon ?lc"
  proof -
    have "epsilonMin ?lc * epsilonDecay ?lc \<le> epsilon ?lc * epsilonDecay ?lc"
      using that assms(1) by (simp add: mult_right_mono)
    with assms(3) show ?thesis by linarith
  qed
  with assms(2) show ?thesis by (simp add: decay_epsilon_epsilon)
qed

lemma step_epsilon_le:
  assumes "0 \<le> epsilonMin (learningConfig (config s))"
    and "epsilonDecay (learningConfig (config s)) \<le> 1"
  shows "epsilon (learningConfig (config (step M s x))) \<le> epsilon (learningConfig (config s))"
  using decay_epsilon_le[OF assms] by (simp add: step_epsilon split: op.splits)

lemma step_epsilon_lower:
  assumes "0 < epsilonDecay (learningConfig (config s))"
    and "b \<le> epsilon (learningConfig (config s))"
    and "b \<le> epsilonMin (learningConfig (config s)) * epsilonDecay (learningConfig (config s))"
  shows "b \<le> epsilon (learningConfig (config (step M s x)))"
  using decay_epsilon_lower[OF assms] assms(2) by (simp add: step_epsilon split: op.splits)

lemma run_epsilon_le:
  assumes "0 \<le> epsilonMin (learningConfig (config s))"
    and "epsilonDecay (learningConfig (config s)) \<le> 1"
  shows "epsilon (learningConfig (config (run M ops s))) \<le> epsilon (learningConfig (config s))"
  using assms
proof (induction ops arbitrary: s)
  case Nil
  then show ?case by (simp add: run_Nil)
next
  case (Cons x ops)
  have "epsilon (learningConfig (config (run M ops (step M s x))))
          \<le> epsilon (learningConfig (config (step M s x)))"
    using Cons.prems by (intro Cons.IH) (simp_all add: step_schedule)
  also have "\<dots> \<le> epsilon (learningConfig (config s))"
    using Cons.prems by (rule step_epsilon_le)
  finally show ?case by (simp add: run_Cons)
qed

lemma run_epsilon_lower:
  assumes "0 < epsilonDecay (learningConfig (config s))"
    and "b \<le> epsilon (learningConfig (config s))"
    and "b \<le> epsilonMin (learningConfig (config s)) * epsilonDecay (learningConfig (config s))"
  shows "b \<le> epsilon (learningConfig (config (run M ops s)))"
  using assms
proof (induction ops arbitrary: s)
  case Nil
  then show ?case by (simp add: run_Nil)
next
  case (Cons x ops)
  have "b \<le> epsilon (learningConfig (config (run M ops (step M s x))))"
  proof (rule Cons.IH)
    show "0 < epsilonDecay (learningConfig (config (step M s x)))"
      using Cons.prems(1) by (simp add: step_schedule)
    show "b \<le> epsilon (learningConfig (config (step M s x)))"
      using Cons.prems by (rule step_epsilon_lower)
    show "b \<le> epsilonMin (learningConfig (config (step M s x))) *
                epsilonDecay (learningConfig (config (step M s x)))"
      using Cons.prems(3) by (simp add: step_schedule)
  qed
  then show ?case by (simp add: run_Cons)
qed

subsection \<open>The encoder in closed form\<close>

declare createNeuralNetInput_loop.simps [simp del]

lemmas eval_defs = run_def forward_def backward_def replay_def Agent_def Let_def
  decay_epsilon_def set_epsilon_def push_buffers_def shift_push_def createNeuralNetInput_def
  createNeuralNetInput_loop.simps
  policy_def addReward_def setReward_def target_def set_index_def createInOutFromMemento_def
  tensor2d_def concat0_def concat1_def reduce_pairs_def slot_def add_def new_TypedWindow_def
  MEM_WINDOW_MIN_SIZE_def HIST_WINDOW_SIZE_def HIST_WINDOW_MIN_SIZE_def
  fit_settled_def new_calls_def action_row_def

text \<open>The one-hot row, in the spec's words: 1.0 at the index of the action, 0.0 elsewhere.\<close>

lemma action_row_one_hot:
  "action_row n (Some (real k)) = (replicate n 0)[k := 1]"
  by (rule nth_equalityI) (auto simp: action_row_def nth_list_update)

lemma action_row_undefined: "action_row n None = replicate n 0"
  by (rule nth_equalityI) (auto simp: action_row_def)

lemma createNeuralNetInput_loop_closed:
  assumes "\<forall>j. i \<le> j \<and> j < temporalWindow (config s) \<longrightarrow>
             slot (statesBuffer s) (int (netInputWindowSize s) - 1 - int j) = Some (sts j)"
  shows "createNeuralNetInput_loop M s i acc =
           Inr (acc @ concat (map (\<lambda>j. sts j @ action_row (OutputSize M)
                  (slot (actionsBuffer s) (int (netInputWindowSize s) - 1 - int j)))
                  [i..<temporalWindow (config s)]))"
  using assms
proof (induction "temporalWindow (config s) - i" arbitrary: i acc)
  case 0
  then show ?case by (simp add: createNeuralNetInput_loop.simps)
next
  case (Suc k)
  then have lt: "i < temporalWindow (config s)" by simp
  with Suc.prems have st: "slot (statesBuffer s) (int (netInputWindowSize s) - 1 - int i) = Some (sts i)"
    by simp
  have k: "k = temporalWindow (config s) - Suc i" using Suc.hyps(2) by simp
  have rest: "\<forall>j. Suc i \<le> j \<and> j < temporalWindow (config s) \<longrightarrow>
             slot (statesBuffer s) (int (netInputWindowSize s) - 1 - int j) = Some (sts j)"
    using Suc.prems by simp
  show ?case
    by (subst createNeuralNetInput_loop.simps)
      (simp add: lt st Suc.hyps(1)[OF k rest] upt_conv_Cons[OF lt] concat1_def)
qed

lemma createNeuralNetInput_loop_undefined:
  assumes "i \<le> j" "j < temporalWindow (config s)"
    and "slot (statesBuffer s) (int (netInputWindowSize s) - 1 - int j) = None"
  shows "createNeuralNetInput_loop M s i acc = Inl ConcatUndefined"
  using assms
proof (induction "j - i" arbitrary: i acc)
  case 0
  then have "i = j" by simp
  with 0 show ?case by (subst createNeuralNetInput_loop.simps) simp
next
  case (Suc k)
  then have lt: "i < temporalWindow (config s)" and le: "Suc i \<le> j" and k: "k = j - Suc i"
    by simp_all
  show ?case
    by (subst createNeuralNetInput_loop.simps)
      (simp add: lt Suc.hyps(1)[OF k le Suc.prems(2,3)] split: option.splits)
qed

lemma createNeuralNetInput_closed:
  assumes "\<forall>j<temporalWindow (config s).
             slot (statesBuffer s) (int (netInputWindowSize s) - 1 - int j) = Some (sts j)"
  shows "createNeuralNetInput M s input =
           Inr (input @ concat (map (\<lambda>j. sts j @ action_row (OutputSize M)
                  (slot (actionsBuffer s) (int (netInputWindowSize s) - 1 - int j)))
                  [0..<temporalWindow (config s)]))"
  unfolding createNeuralNetInput_def
  by (rule createNeuralNetInput_loop_closed) (use assms in simp)

subsection \<open>The buffers stay filled\<close>

lemma slot_shift_push:
  assumes "length xs = n" "j < n"
  shows "slot (shift_push v xs) (int n - 1 - int j) =
           (if j = 0 then Some v else slot xs (int n - 1 - int (j - 1)))"
proof (cases "j = 0")
  case True
  with assms show ?thesis
    by (simp add: slot_def shift_push_def nth_append nat_diff_distrib')
next
  case False
  with assms have a: "nat (int n - 1 - int j) = n - 1 - j" "n - 1 - j < n - 1"
    "nat (int n - 1 - int (j - 1)) = n - j" "n - j < n"
    by (simp_all add: nat_diff_distrib')
  have "(tl xs @ [Some v]) ! (n - 1 - j) = xs ! (n - j)"
    using assms False a by (simp add: nth_append nth_tl Suc_diff_Suc)
  with assms False a show ?thesis
    by (simp add: slot_def shift_push_def)
qed

lemma slot_shift_push_last:
  "xs \<noteq> [] \<Longrightarrow> slot (shift_push v xs) (int (length xs) - 1) = Some v"
  by (simp add: slot_def shift_push_def nth_append nat_diff_distrib')

lemma length_shift_push: "xs \<noteq> [] \<Longrightarrow> length (shift_push v xs) = length xs"
  by (simp add: shift_push_def)

lemma filled_push_buffers:
  assumes "filled s"
  shows "filled ((push_buffers act input net s)
           \<lparr>track := (track s)\<lparr>forwardPasses := forwardPasses (track s) + 1\<rparr>\<rparr>)"
proof -
  let ?n = "netInputWindowSize s"
  from assms have n: "?n = max (temporalWindow (config s)) 2"
    and la: "length (actionsBuffer s) = ?n" and ls: "length (statesBuffer s) = ?n"
    and li: "length (inputsBuffer s) = ?n"
    by (simp_all add: filled_def MEM_WINDOW_MIN_SIZE_def)
  from n have pos: "0 < ?n" by simp
  have old: "slot (actionsBuffer s) (int ?n - 1 - int j) \<noteq> None \<and>
             slot (statesBuffer s) (int ?n - 1 - int j) \<noteq> None \<and>
             slot (inputsBuffer s) (int ?n - 1 - int j) \<noteq> None"
    if "j < min (forwardPasses (track s)) ?n" for j
    using assms that by (auto simp: filled_def list_all_iff)
  have new: "slot (shift_push act (actionsBuffer s)) (int ?n - 1 - int j) \<noteq> None \<and>
             slot (shift_push input (statesBuffer s)) (int ?n - 1 - int j) \<noteq> None \<and>
             slot (shift_push net (inputsBuffer s)) (int ?n - 1 - int j) \<noteq> None"
    if "j < min (forwardPasses (track s) + 1) ?n" for j
  proof (cases "j = 0")
    case True
    from pos la ls li have "actionsBuffer s \<noteq> []" "statesBuffer s \<noteq> []" "inputsBuffer s \<noteq> []"
      by auto
    then show ?thesis
      using slot_shift_push_last[of "actionsBuffer s" act]
        slot_shift_push_last[of "statesBuffer s" input]
        slot_shift_push_last[of "inputsBuffer s" net]
      by (simp add: True la ls li)
  next
    case False
    with that have "j - 1 < min (forwardPasses (track s)) ?n" and "j < ?n" by auto
    with old[of "j - 1"] False la ls li show ?thesis by (simp add: slot_shift_push)
  qed
  from pos la ls li have "actionsBuffer s \<noteq> []" "statesBuffer s \<noteq> []" "inputsBuffer s \<noteq> []"
    by auto
  with n la ls li new show ?thesis
    by (simp add: filled_def push_buffers_def length_shift_push list_all_iff
        MEM_WINDOW_MIN_SIZE_def)
qed

lemma filled_decay: "filled (decay_epsilon s) = filled s"
  by (simp add: filled_def decay_epsilon_other decay_epsilon_config)

lemma forward_filled:
  assumes "filled s"
  shows "\<exists>act net. forward M u rnd input s =
           (push_buffers act input net
              (decay_epsilon (s\<lparr>track := (track s)\<lparr>forwardPasses := forwardPasses (track s) + 1\<rparr>\<rparr>)),
            Inr act)"
proof -
  let ?s1 = "s\<lparr>track := (track s)\<lparr>forwardPasses := forwardPasses (track s) + 1\<rparr>\<rparr>"
  let ?s2 = "decay_epsilon ?s1"
  show ?thesis
  proof (cases "temporalWindow (config ?s2) < forwardPasses (track ?s2)")
    case True
    then have le: "temporalWindow (config s) \<le> forwardPasses (track s)"
      by (simp add: decay_epsilon_other decay_epsilon_config)
    have sl: "slot (statesBuffer ?s2) (int (netInputWindowSize ?s2) - 1 - int j) =
          Some (the (slot (statesBuffer s) (int (netInputWindowSize s) - 1 - int j)))"
      if "j < temporalWindow (config ?s2)" for j
    proof -
      from that le assms have "j \<in> set [0..<min (forwardPasses (track s)) (netInputWindowSize s)]"
        by (simp add: filled_def decay_epsilon_config)
      with assms show ?thesis by (auto simp: filled_def list_all_iff decay_epsilon_other)
    qed
    obtain r where "createNeuralNetInput M ?s2 input = Inr r"
      using createNeuralNetInput_closed[of ?s2
          "\<lambda>j. the (slot (statesBuffer s) (int (netInputWindowSize s) - 1 - int j))" M input] sl
      by blast
    with True show ?thesis by (auto simp: forward_def Let_def)
  next
    case False
    then show ?thesis by (auto simp: forward_def Let_def)
  qed
qed

lemma filled_forward:
  assumes "filled s"
  shows "filled (fst (forward M u rnd input s))"
proof -
  let ?s1 = "s\<lparr>track := (track s)\<lparr>forwardPasses := forwardPasses (track s) + 1\<rparr>\<rparr>"
  from forward_filled[OF assms] obtain act net where
    f: "forward M u rnd input s = (push_buffers act input net (decay_epsilon ?s1), Inr act)"
    by blast
  have "filled (decay_epsilon s)" using assms by (simp add: filled_decay)
  from filled_push_buffers[OF this, of act input net]
  have "filled ((push_buffers act input net (decay_epsilon s))
           \<lparr>track := (track s)\<lparr>forwardPasses := forwardPasses (track s) + 1\<rparr>\<rparr>)"
    by (simp add: decay_epsilon_other)
  moreover have "(push_buffers act input net (decay_epsilon s))
           \<lparr>track := (track s)\<lparr>forwardPasses := forwardPasses (track s) + 1\<rparr>\<rparr>
        = push_buffers act input net (decay_epsilon ?s1)"
    by (simp add: push_buffers_def decay_epsilon_def set_epsilon_def Let_def)
  ultimately show ?thesis by (simp add: f)
qed

lemma filled_unchanged:
  "filled (fst (backward M len batch s)) = filled s"
  "filled (fst (fit_settled out s)) = filled s"
  "filled (addReward v s) = filled s"
  "filled (setReward v s) = filled s"
  by (simp_all add: filled_def backward_other fit_settled_other addReward_def setReward_def)

lemma filled_step: "filled s \<Longrightarrow> filled (step M s x)"
  by (cases x) (simp_all add: filled_forward filled_unchanged)

lemma filled_run: "filled s \<Longrightarrow> filled (run M ops s)"
  by (induction ops arbitrary: s) (simp_all add: run_Nil run_Cons filled_step)

lemma filled_Agent: "filled (Agent cfg)"
  by (simp add: filled_def Agent_def Let_def)

subsection \<open>The errors of replay and backward\<close>

lemma createInOutFromMemento_error:
  "createInOutFromMemento M s m = Inl e \<Longrightarrow> e = ShapeMismatch"
  by (simp add: createInOutFromMemento_def tensor2d_def Let_def split: if_splits)

lemma map_mementos_error: "map_mementos M s ms = Inl e \<Longrightarrow> e = ShapeMismatch"
  by (induction ms arbitrary: e)
    (auto split: sum.splits dest: createInOutFromMemento_error)

lemma reduce_from_error: "reduce_from acc ps = Inl e \<Longrightarrow> e = ShapeMismatch"
  by (induction ps arbitrary: acc)
    (auto simp: concat0_def split: sum.splits if_splits)

lemma replay_error: "snd (replay M batch s) = Some e \<Longrightarrow> e = ShapeMismatch \<or> e = ReduceEmpty"
  by (auto simp: replay_def Let_def reduce_pairs_def
      split: sum.splits list.splits dest: map_mementos_error reduce_from_error)

lemma filled_backward_no_hole:
  assumes "filled s"
  shows "snd (backward M len batch s) \<noteq> Some HoleRead"
proof (cases "\<not> learning (track s) \<or> forwardPasses (track s) \<le> temporalWindow (config s) + 1")
  case True
  then show ?thesis by (auto simp: backward_def Let_def)
next
  case False
  let ?n = "netInputWindowSize s"
  from assms have n: "?n = max (temporalWindow (config s)) 2"
    by (simp add: filled_def MEM_WINDOW_MIN_SIZE_def)
  with False have "0 < min (forwardPasses (track s)) ?n" "1 < min (forwardPasses (track s)) ?n"
    by simp_all
  then have "0 \<in> set [0..<min (forwardPasses (track s)) ?n]"
    "1 \<in> set [0..<min (forwardPasses (track s)) ?n]" by simp_all
  with assms have
    "slot (inputsBuffer s) (int ?n - 1 - int 0) \<noteq> None"
    "slot (actionsBuffer s) (int ?n - 1 - int 1) \<noteq> None"
    "slot (inputsBuffer s) (int ?n - 1 - int 1) \<noteq> None"
    unfolding filled_def list_all_iff by blast+
  then obtain a st nx where
    "slot (actionsBuffer s) (int ?n - 2) = Some a"
    "slot (inputsBuffer s) (int ?n - 2) = Some st"
    "slot (inputsBuffer s) (int ?n - 1) = Some nx"
    by auto
  with False show ?thesis
    by (auto simp: backward_def Let_def MEM_WINDOW_MIN_SIZE_def dest: replay_error)
qed

lemma run_backward_no_hole:
  "snd (backward M len batch (run M ops (Agent cfg))) \<noteq> Some HoleRead"
  by (rule filled_backward_no_hole) (simp add: filled_run filled_Agent)

lemma run_forward_returns:
  "\<exists>act. snd (forward M u rnd input (run M ops (Agent cfg))) = Inr act"
  using forward_filled[of "run M ops (Agent cfg)" M u rnd input]
  by (auto simp: filled_run filled_Agent)

subsection \<open>Training pairs and the calls of backward\<close>

lemma length_set_index: "length (set_index xs a v) = length xs"
  by (simp add: set_index_def)

lemma set_index_nat: "k < length xs \<Longrightarrow> set_index xs (real k) v = xs[k := v]"
  by (simp add: set_index_def)

lemma target_calls: "target M (s\<lparr>calls := c\<rparr>) m = target M s m"
  by (simp add: target_def)

lemma createInOutFromMemento_calls:
  "createInOutFromMemento M (s\<lparr>calls := c\<rparr>) m = createInOutFromMemento M s m"
  by (simp add: createInOutFromMemento_def target_calls)

lemma map_mementos_calls: "map_mementos M (s\<lparr>calls := c\<rparr>) ms = map_mementos M s ms"
  by (induction ms) (simp_all add: createInOutFromMemento_calls split: sum.splits)

lemma createInOutFromMemento_three:
  assumes "length (getValue (predict M (state m))) = 3"
  shows "createInOutFromMemento M s m =
           Inr (state m, set_index (getValue (predict M (state m))) (action m) (target M s m))"
  using assms by (simp add: createInOutFromMemento_def tensor2d_def length_set_index)

lemma createInOutFromMemento_other:
  assumes "length (getValue (predict M (state m))) \<noteq> 3"
  shows "createInOutFromMemento M s m = Inl ShapeMismatch"
  using assms by (simp add: createInOutFromMemento_def tensor2d_def length_set_index)

text \<open>
  For a model with three actions and an action index below 3, createInOutFromMemento
  does what the Bellman update asks.
\<close>

lemma createInOutFromMemento_bellman:
  assumes "length (getValue (predict M (state m))) = 3" and "action m = real k" and "k < 3"
  shows "\<exists>y. createInOutFromMemento M s m = Inr (state m, y) \<and> length y = 3 \<and>
           y ! k = (if done_flag s then reward m
                    else reward m + gamma (learningConfig (config s)) *
                           getHighestValue (predict M (nextState m))) \<and>
           (\<forall>j<3. j \<noteq> k \<longrightarrow> y ! j = getValue (predict M (state m)) ! j)"
  using assms
  by (simp add: createInOutFromMemento_three set_index_nat target_def)

lemma map_mementos_three:
  assumes "list_all (\<lambda>m. length (getValue (predict M (state m))) = 3) ms"
  shows "map_mementos M s ms =
           Inr (map (\<lambda>m. (state m,
                  set_index (getValue (predict M (state m))) (action m) (target M s m))) ms)"
  using assms by (induction ms) (simp_all add: createInOutFromMemento_three)

lemma concat0_row:
  "list_all (\<lambda>r. length r = length x) X \<Longrightarrow> concat0 X [x] = Inr (X @ [x])"
  by (simp add: concat0_def)

lemma reduce_from_closed:
  assumes "list_all (\<lambda>r. length r = w) (fst acc)" and "list_all (\<lambda>r. length r = v) (snd acc)"
    and "list_all (\<lambda>p. length (fst p) = w \<and> length (snd p) = v) ps"
  shows "reduce_from acc ps = Inr (fst acc @ map fst ps, snd acc @ map snd ps)"
  using assms
proof (induction ps arbitrary: acc)
  case Nil
  then show ?case by simp
next
  case (Cons p ps)
  from Cons.prems have x: "concat0 (fst acc) [fst p] = Inr (fst acc @ [fst p])"
    and y: "concat0 (snd acc) [snd p] = Inr (snd acc @ [snd p])"
    by (simp_all add: concat0_row)
  have "reduce_from (fst acc @ [fst p], snd acc @ [snd p]) ps =
          Inr (fst (fst acc @ [fst p], snd acc @ [snd p]) @ map fst ps,
               snd (fst acc @ [fst p], snd acc @ [snd p]) @ map snd ps)"
    using Cons.prems by (intro Cons.IH) simp_all
  then show ?case by (simp add: x y)
qed

lemma reduce_pairs_closed:
  assumes "ps \<noteq> []" and "list_all (\<lambda>p. length (fst p) = w \<and> length (snd p) = v) ps"
  shows "reduce_pairs ps = Inr (map fst ps, map snd ps)"
proof (cases ps)
  case Nil
  with assms show ?thesis by simp
next
  case (Cons p rest)
  with assms have "reduce_from ([fst p], [snd p]) rest =
      Inr (fst ([fst p], [snd p]) @ map fst rest, snd ([fst p], [snd p]) @ map snd rest)"
    by (intro reduce_from_closed[where w = w and v = v]) simp_all
  with Cons show ?thesis by (simp add: reduce_pairs_def)
qed

lemma backward_new_calls:
  "new_calls s (fst (backward M len batch s)) = [] \<or>
   (learning (track s) \<and> temporalWindow (config s) + 1 < forwardPasses (track s) \<and>
    (\<exists>a st nx rest.
       slot (actionsBuffer s) (int (netInputWindowSize s) - 2) = Some a \<and>
       slot (inputsBuffer s) (int (netInputWindowSize s) - 2) = Some st \<and>
       slot (inputsBuffer s) (int (netInputWindowSize s) - 1) = Some nx \<and>
       new_calls s (fst (backward M len batch s)) =
         Remember \<lparr>action = a, reward = currentReward s, state = st, nextState = nx\<rparr> # rest \<and>
       (rest = [] \<or>
        learningStepsRandom (learningConfig (config s)) < len \<and>
        (rest = [Sample (batchSize (config s))] \<or>
         (\<exists>X Y. rest = [Sample (batchSize (config s)), Fit X Y 1 1])))))"
proof (cases "\<not> learning (track s) \<or> forwardPasses (track s) \<le> temporalWindow (config s) + 1")
  case True
  then show ?thesis by (auto simp: backward_def Let_def new_calls_def)
next
  case gate: False
  let ?s2 = "s\<lparr>rewardsHistory := add (currentReward s) (rewardsHistory s),
               track := (track s)\<lparr>age := age (track s) + 1\<rparr>\<rparr>"
  show ?thesis
  proof (cases "\<exists>a st nx. slot (actionsBuffer s) (int (netInputWindowSize s) - 2) = Some a \<and>
       slot (inputsBuffer s) (int (netInputWindowSize s) - 2) = Some st \<and>
       slot (inputsBuffer s) (int (netInputWindowSize s) - 1) = Some nx")
    case False
    with gate have "fst (backward M len batch s) = ?s2"
      by (auto simp: backward_def Let_def MEM_WINDOW_MIN_SIZE_def split: option.splits)
    then show ?thesis by (simp add: new_calls_def)
  next
    case True
    then obtain a st nx where
      sl: "slot (actionsBuffer s) (int (netInputWindowSize s) - 2) = Some a"
        "slot (inputsBuffer s) (int (netInputWindowSize s) - 2) = Some st"
        "slot (inputsBuffer s) (int (netInputWindowSize s) - 1) = Some nx"
      by blast
    let ?m = "\<lparr>action = a, reward = currentReward s, state = st, nextState = nx\<rparr>"
    let ?s3 = "?s2\<lparr>calls := calls s @ [Remember ?m]\<rparr>"
    show ?thesis
    proof (cases "len \<le> learningStepsRandom (learningConfig (config s))")
      case True
      with gate sl have "fst (backward M len batch s) = ?s3"
        by (simp add: backward_def Let_def MEM_WINDOW_MIN_SIZE_def)
      then have "new_calls s (fst (backward M len batch s)) = [Remember ?m]"
        by (simp add: new_calls_def)
      with gate sl show ?thesis by simp
    next
      case False
      with gate sl have b: "fst (backward M len batch s) = fst (replay M batch ?s3)"
        by (simp add: backward_def Let_def MEM_WINDOW_MIN_SIZE_def)
      from replay_calls[of M batch ?s3]
      have "new_calls s (fst (backward M len batch s)) = [Remember ?m, Sample (batchSize (config s))] \<or>
            (\<exists>X Y. new_calls s (fst (backward M len batch s))
                     = [Remember ?m, Sample (batchSize (config s)), Fit X Y 1 1])"
        by (auto simp: b new_calls_def)
      with gate sl False show ?thesis by auto
    qed
  qed
qed

subsection \<open>Dispatch and settlement of the fit\<close>

lemma replay_cases:
  "(calls (fst (replay M batch s)) = calls s @ [Sample (batchSize (config s))] \<and>
    snd (replay M batch s) \<noteq> None) \<or>
   ((\<exists>X Y. calls (fst (replay M batch s)) =
             calls s @ [Sample (batchSize (config s)), Fit X Y 1 1]) \<and>
    snd (replay M batch s) = None)"
  by (simp add: replay_def Let_def setReward_def split: sum.splits)

lemma replay_fit_returns:
  assumes "list_ex is_Fit (new_calls s (fst (replay M batch s)))"
  shows "snd (replay M batch s) = None"
  using replay_cases[of M batch s] assms by (auto simp: new_calls_def)

lemma backward_cases:
  "(\<exists>more. calls (fst (backward M len batch s)) = calls s @ more \<and>
           list_all (\<lambda>c. \<not> is_Fit c) more) \<or>
   ((\<exists>more. calls (fst (backward M len batch s)) = calls s @ more) \<and>
    snd (backward M len batch s) = None)"
proof (cases "\<not> learning (track s) \<or> forwardPasses (track s) \<le> temporalWindow (config s) + 1")
  case True
  then have "calls (fst (backward M len batch s)) = calls s @ []"
    by (auto simp: backward_def Let_def)
  then show ?thesis by (intro disjI1 exI[of _ "[]"]) simp
next
  case gate: False
  let ?s2 = "s\<lparr>rewardsHistory := add (currentReward s) (rewardsHistory s),
               track := (track s)\<lparr>age := age (track s) + 1\<rparr>\<rparr>"
  show ?thesis
  proof (cases "\<exists>a st nx. slot (actionsBuffer s) (int (netInputWindowSize s) - 2) = Some a \<and>
       slot (inputsBuffer s) (int (netInputWindowSize s) - 2) = Some st \<and>
       slot (inputsBuffer s) (int (netInputWindowSize s) - 1) = Some nx")
    case False
    with gate have "fst (backward M len batch s) = ?s2"
      by (auto simp: backward_def Let_def MEM_WINDOW_MIN_SIZE_def split: option.splits)
    then have "calls (fst (backward M len batch s)) = calls s @ []" by simp
    then show ?thesis by (intro disjI1 exI[of _ "[]"]) simp
  next
    case True
    then obtain a st nx where
      sl: "slot (actionsBuffer s) (int (netInputWindowSize s) - 2) = Some a"
        "slot (inputsBuffer s) (int (netInputWindowSize s) - 2) = Some st"
        "slot (inputsBuffer s) (int (netInputWindowSize s) - 1) = Some nx"
      by blast
    let ?m = "\<lparr>action = a, reward = currentReward s, state = st, nextState = nx\<rparr>"
    let ?s3 = "?s2\<lparr>calls := calls s @ [Remember ?m]\<rparr>"
    show ?thesis
    proof (cases "len \<le> learningStepsRandom (learningConfig (config s))")
      case True
      with gate sl have "fst (backward M len batch s) = ?s3"
        by (simp add: backward_def Let_def MEM_WINDOW_MIN_SIZE_def)
      then have "calls (fst (backward M len batch s)) = calls s @ [Remember ?m]" by simp
      then show ?thesis by (intro disjI1 exI[of _ "[Remember ?m]"]) simp
    next
      case False
      with gate sl have b: "backward M len batch s = replay M batch ?s3"
        by (simp add: backward_def Let_def MEM_WINDOW_MIN_SIZE_def)
      from replay_cases[of M batch ?s3] show ?thesis
      proof
        assume "calls (fst (replay M batch ?s3)) = calls ?s3 @ [Sample (batchSize (config ?s3))] \<and>
                snd (replay M batch ?s3) \<noteq> None"
        then have "calls (fst (backward M len batch s)) =
                     calls s @ [Remember ?m, Sample (batchSize (config s))]"
          by (simp add: b)
        then show ?thesis
          by (intro disjI1 exI[of _ "[Remember ?m, Sample (batchSize (config s))]"]) simp
      next
        assume "(\<exists>X Y. calls (fst (replay M batch ?s3)) =
                   calls ?s3 @ [Sample (batchSize (config ?s3)), Fit X Y 1 1]) \<and>
                snd (replay M batch ?s3) = None"
        then obtain X Y where
          "calls (fst (backward M len batch s)) =
             calls s @ [Remember ?m, Sample (batchSize (config s)), Fit X Y 1 1]"
          and "snd (backward M len batch s) = None"
          by (auto simp: b)
        then show ?thesis by (intro disjI2 conjI exI) simp_all
      qed
    qed
  qed
qed

lemma backward_fit_returns:
  assumes "list_ex is_Fit (new_calls s (fst (backward M len batch s)))"
  shows "snd (backward M len batch s) = None"
  using backward_cases[of M len batch s] assms
  by (auto simp: new_calls_def list_ex_iff list_all_iff)

lemma backward_calls_prefix: "\<exists>more. calls (fst (backward M len batch s)) = calls s @ more"
  using backward_cases[of M len batch s] by blast

lemma step_calls_prefix: "\<exists>more. calls (step M s x) = calls s @ more"
  by (cases x)
    (simp_all add: forward_other backward_calls_prefix fit_settled_other addReward_def
      setReward_def)

lemma run_calls_prefix: "\<exists>more. calls (run M ops s) = calls s @ more"
proof (induction ops arbitrary: s)
  case Nil
  then show ?case by (simp add: run_Nil)
next
  case (Cons x ops)
  obtain a where a: "calls (step M s x) = calls s @ a"
    using step_calls_prefix by blast
  obtain b where "calls (run M ops (step M s x)) = calls (step M s x) @ b"
    using Cons.IH by blast
  with a show ?case by (simp add: run_Cons)
qed

lemma run_keeps_fit:
  assumes "list_ex is_Fit (new_calls s s')"
  shows "list_ex is_Fit (calls (run M ops s'))"
proof -
  from assms obtain c where "c \<in> set (drop (length (calls s)) (calls s'))" "is_Fit c"
    by (auto simp: new_calls_def list_ex_iff)
  then have "c \<in> set (calls s')" by (auto dest: in_set_dropD)
  moreover obtain more where "calls (run M ops s') = calls s' @ more"
    using run_calls_prefix by blast
  ultimately show ?thesis using \<open>is_Fit c\<close> by (auto simp: list_ex_iff)
qed

lemma createNeuralNetInput_loop_error:
  "createNeuralNetInput_loop M s i acc = Inl e \<Longrightarrow> e = ConcatUndefined"
proof (induction "temporalWindow (config s) - i" arbitrary: i acc)
  case 0
  then show ?case by (simp add: createNeuralNetInput_loop.simps)
next
  case (Suc k)
  then have lt: "i < temporalWindow (config s)" and k: "k = temporalWindow (config s) - Suc i"
    by simp_all
  from Suc.prems show ?case
    by (subst (asm) createNeuralNetInput_loop.simps)
      (auto simp: lt split: option.splits dest: Suc.hyps(1)[OF k])
qed

lemma forward_error: "snd (forward M u rnd input s) = Inl e \<Longrightarrow> e = ConcatUndefined"
  by (auto simp: forward_def Let_def createNeuralNetInput_def
      split: if_splits sum.splits dest: createNeuralNetInput_loop_error)

lemma backward_error:
  "snd (backward M len batch s) = Some e \<Longrightarrow>
     e = HoleRead \<or> e = ShapeMismatch \<or> e = ReduceEmpty"
  by (auto simp: backward_def Let_def split: if_splits option.splits dest: replay_error)

section \<open>The claims\<close>

subsection \<open>C1: the training pair of a memento\<close>

text \<open>
  C1 asks, for every memento, for a pair whose label carries the target at the action's
  index and the model's prediction elsewhere. The code shapes the label with the fixed
  shape [1, 3] (line 165), while the encoder sizes its rows by Model.OutputSize: for a
  model with two actions the value vector has two entries, tensor2d throws and no pair
  is returned. (\<open>createInOutFromMemento_bellman\<close> is the claim for a model with three
  actions.)
\<close>

theorem createInOutFromMemento_two_actions:
  "createInOutFromMemento two_actions
     (Agent (config_example 0 (learning_example (1 / 2) (1 / 2) (1 / 4) 10 0)))
     \<lparr>action = 0, reward = 1, state = [1], nextState = [2]\<rparr> = Inl ShapeMismatch"
  by (simp add: createInOutFromMemento_def tensor2d_def set_index_def two_actions_def)

subsection \<open>C2: the memento that backward stores\<close>

text \<open>
  C2 as stated fails on the reward: the memento's reward is the accumulated reward
  currentReward (line 133), not a value of the action buffer. After two forward calls
  with the actions 2 and 0 and a reward of 5, backward remembers a memento with action
  2 and reward 5, while position netInputWindowSize - 2 of the action buffer holds 2.
\<close>

theorem backward_memento_counterexample:
  "new_calls (two_steps three_actions)
     (fst (backward three_actions 1 [first_memento] (two_steps three_actions)))
     = [Remember \<lparr>action = 2, reward = 5, state = [1], nextState = [2]\<rparr>,
        Sample 2, Fit [[1]] [[0, 1, 11 / 2]] 1 1] \<and>
   slot (actionsBuffer (two_steps three_actions))
     (int (netInputWindowSize (two_steps three_actions)) - 2) = Some 2 \<and>
   slot (actionsBuffer (two_steps three_actions))
     (int (netInputWindowSize (two_steps three_actions)) - 2)
     \<noteq> Some (reward \<lparr>action = 2, reward = 5, state = [1], nextState = [2]\<rparr>)"
  by (simp add: eval_defs two_steps_def first_memento_def three_actions_def
        learning_example_def config_example_def)

text \<open>
  C2, amended. Whenever backward stores an experience, the memento handed to remember
  has its action taken from position netInputWindowSize - 2 of the action buffer, its
  reward equal to the currently accumulated reward, its state equal to the encoded input
  at position netInputWindowSize - 2 and its nextState equal to the encoded input at the
  last position, netInputWindowSize - 1.
\<close>

theorem backward_memento:
  assumes "Remember m \<in> set (new_calls s (fst (backward M len batch s)))"
  shows "slot (actionsBuffer s) (int (netInputWindowSize s) - 2) = Some (action m) \<and>
         reward m = currentReward s \<and>
         slot (inputsBuffer s) (int (netInputWindowSize s) - 2) = Some (state m) \<and>
         slot (inputsBuffer s) (int (netInputWindowSize s) - 1) = Some (nextState m)"
  using backward_new_calls[of s M len batch] assms by auto

theorem backward_memento_witness:
  "Remember first_memento \<in> set (new_calls (two_steps three_actions)
      (fst (backward three_actions 1 [first_memento] (two_steps three_actions)))) \<and>
   slot (actionsBuffer (two_steps three_actions))
     (int (netInputWindowSize (two_steps three_actions)) - 2) = Some (action first_memento) \<and>
   reward first_memento = currentReward (two_steps three_actions) \<and>
   slot (inputsBuffer (two_steps three_actions))
     (int (netInputWindowSize (two_steps three_actions)) - 2) = Some (state first_memento) \<and>
   slot (inputsBuffer (two_steps three_actions))
     (int (netInputWindowSize (two_steps three_actions)) - 1) = Some (nextState first_memento)"
proof -
  have h: "Remember first_memento \<in> set (new_calls (two_steps three_actions)
      (fst (backward three_actions 1 [first_memento] (two_steps three_actions))))"
    by (simp add: eval_defs two_steps_def first_memento_def three_actions_def
        learning_example_def config_example_def)
  from backward_memento[OF h] h show ?thesis by simp
qed

subsection \<open>C3: one decay of epsilon per forward call\<close>

text \<open>
  C3. A forward call multiplies epsilon by epsilonDecay once when, at the time of the
  call, age < learningTime, age > learningStepsRandom and epsilon > epsilonMin all
  hold; in every other case it leaves epsilon as it was. This holds for every state,
  also when the call throws in the encoder.
\<close>

theorem forward_decays_epsilon_once:
  "epsilon (learningConfig (config (fst (forward M u rnd input s)))) =
     (if age (track s) < learningTime (learningConfig (config s)) \<and>
         learningStepsRandom (learningConfig (config s)) < age (track s) \<and>
         epsilonMin (learningConfig (config s)) < epsilon (learningConfig (config s))
      then epsilon (learningConfig (config s)) * epsilonDecay (learningConfig (config s))
      else epsilon (learningConfig (config s)))"
  by (simp add: forward_config decay_epsilon_epsilon)

text \<open>
  The spec's example: epsilon 1.0, epsilonDecay 0.99, epsilonMin 0.1,
  learningStepsRandom 5, learningTime 1000; at age 6 one forward call yields 0.99.
\<close>

theorem forward_decays_epsilon_once_witness:
  "age (track (run three_actions
      [Backward 0 [], Backward 0 [], Backward 0 [], Backward 0 [], Backward 0 [], Backward 0 []]
      (Agent (config_example 0 (learning_example 1 (99 / 100) (1 / 10) 1000 5))))) = 6 \<and>
   epsilon (learningConfig (config (fst (forward three_actions 0 0 [1]
     (run three_actions
      [Backward 0 [], Backward 0 [], Backward 0 [], Backward 0 [], Backward 0 [], Backward 0 []]
      (Agent (config_example 0 (learning_example 1 (99 / 100) (1 / 10) 1000 5)))))))) = 99 / 100"
  using forward_decays_epsilon_once[of three_actions 0 0 "[1]"
      "run three_actions
        [Backward 0 [], Backward 0 [], Backward 0 [], Backward 0 [], Backward 0 [], Backward 0 []]
        (Agent (config_example 0 (learning_example 1 (99 / 100) (1 / 10) 1000 5)))"]
  by (simp add: run_Cons run_Nil backward_other Agent_fields learning_example_def
      config_example_def)

subsection \<open>C4: the schedule of epsilon over a run\<close>

text \<open>
  C4 as stated fails in two ways. The guard of the decay compares epsilon with
  epsilonMin before the multiplication, so a decay from just above epsilonMin ends
  below it: with epsilon 1, epsilonDecay 1/2 and epsilonMin 3/4 the first decaying
  forward call leaves epsilon 1/2. And 0 < epsilonDecay alone does not make epsilon
  non-increasing: with epsilonDecay 2 the same call leaves epsilon 2.
\<close>

theorem epsilon_schedule_counterexample:
  "epsilon (learningConfig (config (run three_actions [Backward 0 [], Forward (1 / 4) 0 [1]]
      (Agent (config_example 0 (learning_example 1 (1 / 2) (3 / 4) 10 0)))))) = 1 / 2 \<and>
   epsilonMin (learningConfig (config (run three_actions [Backward 0 [], Forward (1 / 4) 0 [1]]
      (Agent (config_example 0 (learning_example 1 (1 / 2) (3 / 4) 10 0)))))) = 3 / 4 \<and>
   epsilon (learningConfig (config (run three_actions [Backward 0 []]
      (Agent (config_example 0 (learning_example 1 2 (3 / 4) 10 0)))))) = 1 \<and>
   epsilon (learningConfig (config (run three_actions [Backward 0 [], Forward (1 / 4) 0 [1]]
      (Agent (config_example 0 (learning_example 1 2 (3 / 4) 10 0)))))) = 2"
  by (simp add: run_Cons run_Nil forward_config decay_epsilon_epsilon decay_epsilon_config
      backward_other Agent_fields learning_example_def config_example_def)

text \<open>
  C4, amended. With 0 < epsilonDecay \<le> 1 and epsilonMin \<ge> 0, over any sequence of
  operations (forward, backward, addReward, setReward and settlements of fits, with any
  answers of the collaborators) epsilon is non-increasing; a decay is only taken from a
  value above epsilonMin, so epsilon never falls below the smaller of its initial value
  and epsilonMin * epsilonDecay; and a forward call made while age \<le> learningStepsRandom
  or age \<ge> learningTime does not change epsilon.
\<close>

theorem epsilon_schedule:
  assumes "0 < epsilonDecay (learningConfig (config s))"
    and "epsilonDecay (learningConfig (config s)) \<le> 1"
    and "0 \<le> epsilonMin (learningConfig (config s))"
  shows "epsilon (learningConfig (config (run M (ops @ ops') s)))
           \<le> epsilon (learningConfig (config (run M ops s))) \<and>
         min (epsilon (learningConfig (config s)))
             (epsilonMin (learningConfig (config s)) * epsilonDecay (learningConfig (config s)))
           \<le> epsilon (learningConfig (config (run M ops s))) \<and>
         (age (track (run M ops s)) \<le> learningStepsRandom (learningConfig (config s)) \<or>
          learningTime (learningConfig (config s)) \<le> age (track (run M ops s)) \<longrightarrow>
            epsilon (learningConfig (config (fst (forward M u rnd input (run M ops s)))))
              = epsilon (learningConfig (config (run M ops s))))"
proof (intro conjI impI)
  show "epsilon (learningConfig (config (run M (ops @ ops') s)))
           \<le> epsilon (learningConfig (config (run M ops s)))"
    unfolding run_append using assms by (intro run_epsilon_le) (simp_all add: run_schedule)
  show "min (epsilon (learningConfig (config s)))
             (epsilonMin (learningConfig (config s)) * epsilonDecay (learningConfig (config s)))
           \<le> epsilon (learningConfig (config (run M ops s)))"
    using assms(1) by (intro run_epsilon_lower) simp_all
  assume "age (track (run M ops s)) \<le> learningStepsRandom (learningConfig (config s)) \<or>
          learningTime (learningConfig (config s)) \<le> age (track (run M ops s))"
  then show "epsilon (learningConfig (config (fst (forward M u rnd input (run M ops s)))))
              = epsilon (learningConfig (config (run M ops s)))"
    by (auto simp: forward_config decay_epsilon_epsilon run_schedule)
qed

theorem epsilon_schedule_witness:
  "epsilon (learningConfig (config (run three_actions
      ([Backward 0 [], Forward (1 / 4) 0 [1]] @ [Forward (1 / 4) 0 [1]])
      (Agent (config_example 0 (learning_example 1 (1 / 2) (1 / 4) 10 0))))))
     \<le> epsilon (learningConfig (config (run three_actions [Backward 0 [], Forward (1 / 4) 0 [1]]
      (Agent (config_example 0 (learning_example 1 (1 / 2) (1 / 4) 10 0)))))) \<and>
   epsilon (learningConfig (config (run three_actions [Backward 0 [], Forward (1 / 4) 0 [1]]
      (Agent (config_example 0 (learning_example 1 (1 / 2) (1 / 4) 10 0)))))) = 1 / 2 \<and>
   age (track (run three_actions []
      (Agent (config_example 0 (learning_example 1 (1 / 2) (1 / 4) 10 0))))) = 0 \<and>
   epsilon (learningConfig (config (fst (forward three_actions (1 / 4) 0 [1]
      (run three_actions [] (Agent (config_example 0 (learning_example 1 (1 / 2) (1 / 4) 10 0)))))))) = 1"
proof -
  let ?s = "Agent (config_example 0 (learning_example 1 (1 / 2) (1 / 4) 10 0))"
  have h: "0 < epsilonDecay (learningConfig (config ?s))"
    "epsilonDecay (learningConfig (config ?s)) \<le> 1"
    "0 \<le> epsilonMin (learningConfig (config ?s))"
    by (simp_all add: Agent_fields learning_example_def config_example_def)
  have e: "epsilon (learningConfig (config (run three_actions [Backward 0 [], Forward (1 / 4) 0 [1]] ?s))) = 1 / 2"
    by (simp add: run_Cons run_Nil forward_config decay_epsilon_epsilon decay_epsilon_config
      backward_other Agent_fields learning_example_def config_example_def)
  show ?thesis
    using epsilon_schedule[OF h, of three_actions "[Backward 0 [], Forward (1 / 4) 0 [1]]"
        "[Forward (1 / 4) 0 [1]]"]
      epsilon_schedule[OF h, of three_actions "[]" "[]" "1 / 4" 0 "[1]"] e
    by (simp add: run_Nil Agent_fields learning_example_def config_example_def)
qed

subsection \<open>C5: the warm-up of forward\<close>

text \<open>
  C5 as stated fails at forwardPasses = temporalWindow: forward increments forwardPasses
  before it compares it with temporalWindow (lines 84 and 97). An agent with
  temporalWindow 1 that has made one forward call is called with forwardPasses = 1
  \<le> temporalWindow; with a draw of 3/4 against epsilon 1/2 the call returns the action
  of the policy, not the random action 0, and records the encoded input
  [2, 1, 1, 0, 0].
\<close>

theorem forward_warm_up_counterexample:
  "forwardPasses (track one_frame) \<le> temporalWindow (config one_frame) \<and>
   snd (forward three_actions (3 / 4) 0 [2] one_frame)
     = Inr (policy three_actions [2, 1, 1, 0, 0]) \<and>
   policy three_actions [2, 1, 1, 0, 0] \<noteq> 0 \<and>
   inputsBuffer (fst (forward three_actions (3 / 4) 0 [2] one_frame))
     = [Some [], Some [2, 1, 1, 0, 0]]"
  by (simp add: one_frame_def eval_defs three_actions_def learning_example_def
      config_example_def numeral_3_eq_3 upt_rec)

text \<open>
  C5, amended. Whenever forward is called while forwardPasses < temporalWindow (so that
  the counter, incremented by the call, is still \<le> temporalWindow), the action it
  returns is the one obtained from Model.randomOutput(), whatever the draw and the
  model's policy are, and the encoded input it pushes into the inputs buffer is empty.
\<close>

theorem forward_warm_up:
  assumes "forwardPasses (track s) < temporalWindow (config s)"
  shows "snd (forward M u rnd input s) = Inr rnd \<and>
         inputsBuffer (fst (forward M u rnd input s)) = tl (inputsBuffer s) @ [Some []]"
  using assms
  by (simp add: forward_def Let_def decay_epsilon_other decay_epsilon_config push_buffers_def
      shift_push_def)

theorem forward_warm_up_witness:
  "forwardPasses (track (Agent (config_example 2 (learning_example (1 / 2) (1 / 2) (1 / 4) 10 0))))
     < temporalWindow (config (Agent (config_example 2 (learning_example (1 / 2) (1 / 2) (1 / 4) 10 0)))) \<and>
   snd (forward three_actions (3 / 4) 2 [1]
     (Agent (config_example 2 (learning_example (1 / 2) (1 / 2) (1 / 4) 10 0)))) = Inr 2 \<and>
   inputsBuffer (fst (forward three_actions (3 / 4) 2 [1]
     (Agent (config_example 2 (learning_example (1 / 2) (1 / 2) (1 / 4) 10 0)))))
     = [None, Some []]"
proof -
  let ?s = "Agent (config_example 2 (learning_example (1 / 2) (1 / 2) (1 / 4) 10 0))"
  have h: "forwardPasses (track ?s) < temporalWindow (config ?s)"
    by (simp add: Agent_fields config_example_def)
  have b: "inputsBuffer ?s = [None, None]"
    by (simp add: Agent_def Let_def config_example_def MEM_WINDOW_MIN_SIZE_def numeral_2_eq_2)
  from forward_warm_up[OF h, of three_actions "3 / 4" 2 "[1]"] h b show ?thesis by simp
qed

subsection \<open>C6: what backward always does and what it gates\<close>

text \<open>
  C6. Every backward call adds the currently accumulated reward to the reward window and
  increments age by one. Among the calls it makes, a remember occurs only when learning
  is true and forwardPasses > temporalWindow + 1; replay (its sample and its fit) occurs
  only when in addition the Length the experience store reports exceeds
  learningStepsRandom; when learning is false backward makes no call at all.
\<close>

theorem backward_gates:
  "rewardsHistory (fst (backward M len batch s)) = add (currentReward s) (rewardsHistory s) \<and>
   age (track (fst (backward M len batch s))) = age (track s) + 1 \<and>
   (list_ex is_Remember (new_calls s (fst (backward M len batch s))) \<longrightarrow>
      learning (track s) \<and> temporalWindow (config s) + 1 < forwardPasses (track s)) \<and>
   (list_ex is_Sample (new_calls s (fst (backward M len batch s))) \<or>
    list_ex is_Fit (new_calls s (fst (backward M len batch s))) \<longrightarrow>
      learning (track s) \<and> temporalWindow (config s) + 1 < forwardPasses (track s) \<and>
      learningStepsRandom (learningConfig (config s)) < len) \<and>
   (\<not> learning (track s) \<longrightarrow> new_calls s (fst (backward M len batch s)) = [])"
  using backward_new_calls[of s M len batch]
  by (auto simp: backward_other)

theorem backward_gates_witness:
  "list_ex is_Remember (new_calls (two_steps three_actions)
      (fst (backward three_actions 1 [first_memento] (two_steps three_actions)))) \<and>
   list_ex is_Sample (new_calls (two_steps three_actions)
      (fst (backward three_actions 1 [first_memento] (two_steps three_actions)))) \<and>
   learning (track (two_steps three_actions)) \<and>
   temporalWindow (config (two_steps three_actions)) + 1
     < forwardPasses (track (two_steps three_actions)) \<and>
   learningStepsRandom (learningConfig (config (two_steps three_actions))) < 1 \<and>
   rewardsHistory (fst (backward three_actions 1 [first_memento] (two_steps three_actions)))
     = add (currentReward (two_steps three_actions)) (rewardsHistory (two_steps three_actions)) \<and>
   age (track (fst (backward three_actions 1 [first_memento] (two_steps three_actions))))
     = age (track (two_steps three_actions)) + 1 \<and>
   \<not> learning (track frozen_steps) \<and>
   new_calls frozen_steps (fst (backward three_actions 1 [first_memento] frozen_steps)) = []"
proof -
  let ?s = "two_steps three_actions"
  let ?new = "new_calls ?s (fst (backward three_actions 1 [first_memento] ?s))"
  have c: "?new = [Remember first_memento, Sample 2, Fit [[1]] [[0, 1, 11 / 2]] 1 1]"
    by (simp add: eval_defs two_steps_def first_memento_def three_actions_def
        learning_example_def config_example_def)
  have rem: "list_ex is_Remember ?new" and sam: "list_ex is_Sample ?new"
    unfolding c by simp_all
  have f: "\<not> learning (track frozen_steps)" by (simp add: frozen_steps_def)
  note g = backward_gates[of three_actions 1 "[first_memento]" ?s]
  note h = backward_gates[of three_actions 1 "[first_memento]" frozen_steps]
  from g rem sam have "learning (track ?s) \<and>
      temporalWindow (config ?s) + 1 < forwardPasses (track ?s) \<and>
      learningStepsRandom (learningConfig (config ?s)) < 1"
    by blast
  moreover from g have "rewardsHistory (fst (backward three_actions 1 [first_memento] ?s))
      = add (currentReward ?s) (rewardsHistory ?s) \<and>
      age (track (fst (backward three_actions 1 [first_memento] ?s))) = age (track ?s) + 1"
    by blast
  moreover from h f
  have "new_calls frozen_steps (fst (backward three_actions 1 [first_memento] frozen_steps)) = []"
    by blast
  ultimately show ?thesis using rem sam f by blast
qed

subsection \<open>C7: the layout of the encoded input\<close>

text \<open>
  C7. When the temporalWindow most recent slots of the state buffer hold states and the
  action buffer holds action indices there, the encoded input is the current observation
  followed, for i = 0 .. temporalWindow-1 in that order, by the state at position
  netInputWindowSize-1-i and then the row of length OutputSize with 1 at the index of
  the action at that position and 0 elsewhere. Tensors are values here: the encoder
  returns a new row and the observation it was given is what forward pushes into the
  state buffer.
\<close>

theorem createNeuralNetInput_layout:
  assumes "\<forall>i<temporalWindow (config s).
             slot (statesBuffer s) (int (netInputWindowSize s) - 1 - int i) = Some (sts i) \<and>
             slot (actionsBuffer s) (int (netInputWindowSize s) - 1 - int i) = Some (real (acts i))"
  shows "createNeuralNetInput M s input =
           Inr (input @ concat (map (\<lambda>i. sts i @ (replicate (OutputSize M) 0)[acts i := 1])
                  [0..<temporalWindow (config s)]))"
proof -
  have "createNeuralNetInput M s input =
           Inr (input @ concat (map (\<lambda>j. sts j @ action_row (OutputSize M)
                  (slot (actionsBuffer s) (int (netInputWindowSize s) - 1 - int j)))
                  [0..<temporalWindow (config s)]))"
    by (rule createNeuralNetInput_closed) (use assms in simp)
  moreover have "map (\<lambda>j. sts j @ action_row (OutputSize M)
                  (slot (actionsBuffer s) (int (netInputWindowSize s) - 1 - int j)))
                  [0..<temporalWindow (config s)] =
        map (\<lambda>i. sts i @ (replicate (OutputSize M) 0)[acts i := 1]) [0..<temporalWindow (config s)]"
    using assms by (simp add: action_row_one_hot)
  ultimately show ?thesis by simp
qed

theorem createNeuralNetInput_layout_witness:
  "createNeuralNetInput three_actions two_frames [3] = Inr [3, 2, 1, 0, 0, 1, 0, 0, 1]"
proof -
  have st: "statesBuffer two_frames = [Some [1], Some [2]]"
    and ac: "actionsBuffer two_frames = [Some 2, Some 0]"
    and n: "netInputWindowSize two_frames = 2"
    and tw: "temporalWindow (config two_frames) = 2"
    by (simp_all add: two_frames_def eval_defs learning_example_def config_example_def)
  have h: "\<forall>i<temporalWindow (config two_frames).
             slot (statesBuffer two_frames) (int (netInputWindowSize two_frames) - 1 - int i)
               = Some ((\<lambda>i. if i = 0 then [2] else [1]) i) \<and>
             slot (actionsBuffer two_frames) (int (netInputWindowSize two_frames) - 1 - int i)
               = Some (real ((\<lambda>i. if i = 0 then 0 else 2) i))"
    by (auto simp: st ac n tw slot_def less_2_cases_iff)
  have u: "[0..<2] = [0, Suc 0]" by (simp add: upt_rec)
  show ?thesis
    using createNeuralNetInput_layout[OF h, of three_actions "[3]"]
    by (simp add: tw u three_actions_def numeral_3_eq_3)
qed

subsection \<open>C8: one replay\<close>

text \<open>
  C8 as stated fails on the number of mementos and on the fit. replay asks the store
  for batchSize mementos and trains on what sample returns: an agent with batchSize 2
  whose store holds the one memento remembered so far (learningStepsRandom 0) gets at
  most that one memento from sample and dispatches a fit on it. And when a training pair cannot be built (a model with two
  actions, see C1), replay throws after the sample: no fit is dispatched and the
  accumulated reward stays 5.
\<close>

theorem replay_batch_counterexample:
  "batchSize (config (two_steps three_actions)) = 2 \<and>
   sample_within 1 [first_memento] \<and>
   new_calls (two_steps three_actions)
     (fst (backward three_actions 1 [first_memento] (two_steps three_actions)))
     = [Remember first_memento, Sample 2, Fit [[1]] [[0, 1, 11 / 2]] 1 1] \<and>
   backward two_actions 1 [first_memento] (two_steps two_actions)
     = (fst (backward two_actions 1 [first_memento] (two_steps two_actions)),
        Some ShapeMismatch) \<and>
   new_calls (two_steps two_actions)
     (fst (backward two_actions 1 [first_memento] (two_steps two_actions)))
     = [Remember first_memento, Sample 2] \<and>
   currentReward (fst (backward two_actions 1 [first_memento] (two_steps two_actions))) = 5"
  by (simp add: eval_defs sample_within_def two_steps_def first_memento_def
      three_actions_def two_actions_def learning_example_def config_example_def)

text \<open>
  C8, amended. Each replay asks the experience store once for batchSize mementos. When
  the sample it gets is not empty, the model's value vector has three entries for each
  sampled state and the sampled states have one width, replay concatenates the training
  pairs of the sampled mementos into one batch in sample order, submits exactly one fit
  call with one epoch and one step per epoch, and returns with the accumulated reward
  set to zero; the loss window is as before the call, the fit has not settled, and its
  settlement later does not touch the reward.
\<close>

theorem replay_batch:
  assumes "batch \<noteq> []"
    and "list_all (\<lambda>m. length (getValue (predict M (state m))) = 3 \<and>
                       length (state m) = length (state (hd batch))) batch"
  shows "snd (replay M batch s) = None \<and>
         new_calls s (fst (replay M batch s)) =
           [Sample (batchSize (config s)),
            Fit (map state batch)
                (map (\<lambda>m. set_index (getValue (predict M (state m))) (action m) (target M s m))
                   batch) 1 1] \<and>
         currentReward (fst (replay M batch s)) = 0 \<and>
         lossesHistory (fst (replay M batch s)) = lossesHistory s \<and>
         currentReward (fst (fit_settled out (fst (replay M batch s)))) = 0"
proof -
  let ?s1 = "s\<lparr>calls := calls s @ [Sample (batchSize (config s))]\<rparr>"
  let ?ps = "map (\<lambda>m. (state m,
               set_index (getValue (predict M (state m))) (action m) (target M s m))) batch"
  from assms(2) have three: "list_all (\<lambda>m. length (getValue (predict M (state m))) = 3) batch"
    by (simp add: list_all_iff)
  have mm: "map_mementos M ?s1 batch = Inr ?ps"
    using map_mementos_three[OF three, of s] by (simp add: map_mementos_calls)
  have "list_all (\<lambda>p. length (fst p) = length (state (hd batch)) \<and> length (snd p) = 3) ?ps"
    using assms(2) by (simp add: list_all_iff length_set_index)
  moreover have "?ps \<noteq> []" using assms(1) by simp
  ultimately have "reduce_pairs ?ps = Inr (map fst ?ps, map snd ?ps)"
    by (rule reduce_pairs_closed[rotated])
  then have rp: "reduce_pairs ?ps = Inr (map state batch,
      map (\<lambda>m. set_index (getValue (predict M (state m))) (action m) (target M s m)) batch)"
    by (simp add: comp_def)
  show ?thesis
    by (simp add: replay_def Let_def mm rp setReward_def new_calls_def fit_settled_other)
qed

theorem replay_batch_witness:
  "[first_memento, \<lparr>action = 0, reward = 1, state = [2], nextState = [1]\<rparr>] \<noteq> [] \<and>
   snd (replay three_actions
     [first_memento, \<lparr>action = 0, reward = 1, state = [2], nextState = [1]\<rparr>]
     (two_steps three_actions)) = None \<and>
   new_calls (two_steps three_actions) (fst (replay three_actions
     [first_memento, \<lparr>action = 0, reward = 1, state = [2], nextState = [1]\<rparr>]
     (two_steps three_actions)))
     = [Sample 2, Fit [[1], [2]] [[0, 1, 11 / 2], [3 / 2, 1, 1 / 2]] 1 1] \<and>
   currentReward (fst (replay three_actions
     [first_memento, \<lparr>action = 0, reward = 1, state = [2], nextState = [1]\<rparr>]
     (two_steps three_actions))) = 0"
proof -
  let ?b = "[first_memento, \<lparr>action = 0, reward = 1, state = [2], nextState = [1]\<rparr>]"
  have h1: "?b \<noteq> []" by simp
  have h2: "list_all (\<lambda>m. length (getValue (predict three_actions (state m))) = 3 \<and>
                       length (state m) = length (state (hd ?b))) ?b"
    by (simp add: three_actions_def first_memento_def)
  have c: "config (two_steps three_actions)
             = config_example 0 (learning_example (1 / 2) (1 / 2) (1 / 4) 10 0)"
    "done_flag (two_steps three_actions) = False"
    by (simp_all add: eval_defs two_steps_def first_memento_def three_actions_def
        learning_example_def config_example_def)
  from replay_batch[OF h1 h2, of "two_steps three_actions"] c show ?thesis
    by (simp add: target_def set_index_def three_actions_def first_memento_def
        config_example_def learning_example_def)
qed

subsection \<open>C9: the settlement of the fit\<close>

text \<open>
  C9 as stated fails on where the failure goes. replay does not await the fit: backward
  has returned to its caller, without an error, when the promise settles, and the error
  of the rejection handler is thrown in the promise reaction, with no call of the agent
  to propagate to.
\<close>

theorem fit_rejected_counterexample:
  "snd (backward three_actions 1 [first_memento] (two_steps three_actions)) = None \<and>
   list_ex is_Fit (new_calls (two_steps three_actions)
     (fst (backward three_actions 1 [first_memento] (two_steps three_actions)))) \<and>
   snd (fit_settled Rejected
     (fst (backward three_actions 1 [first_memento] (two_steps three_actions))))
     = Some FitFailed"
  by (simp add: eval_defs two_steps_def first_memento_def three_actions_def
        learning_example_def config_example_def)

text \<open>
  C9, amended. Whenever a backward call dispatches a fit, that call (and the replay in
  it) returns to the agent's caller without an error: the fit is not awaited. At any
  later time the fit is still among the calls made, and its settlement runs one of the
  two callbacks. When the fit rejects, the rejection handler throws a new error in the
  promise reaction; the agent is left as it was and no call is made, so the failure is
  neither swallowed by the agent nor retried. When the fit resolves, the reported loss
  history.loss[0] is added to the loss window and nothing else changes. No call of
  forward, backward or replay, in any state, ends with the error of the rejection
  handler: the failure does not reach the agent's caller.
\<close>

theorem fit_settles_after_return:
  assumes "list_ex is_Fit (new_calls s (fst (backward M len batch s)))"
  shows "snd (backward M len batch s) = None \<and>
         list_ex is_Fit (calls (run M ops (fst (backward M len batch s)))) \<and>
         fit_settled Rejected (run M ops (fst (backward M len batch s)))
           = (run M ops (fst (backward M len batch s)), Some FitFailed) \<and>
         new_calls (run M ops (fst (backward M len batch s)))
           (fst (fit_settled Rejected (run M ops (fst (backward M len batch s))))) = [] \<and>
         fit_settled (Resolved l) (run M ops (fst (backward M len batch s)))
           = ((run M ops (fst (backward M len batch s)))
                \<lparr>lossesHistory :=
                   add l (lossesHistory (run M ops (fst (backward M len batch s))))\<rparr>,
              None) \<and>
         new_calls (run M ops (fst (backward M len batch s)))
           (fst (fit_settled (Resolved l) (run M ops (fst (backward M len batch s))))) = [] \<and>
         (list_ex is_Fit (new_calls s' (fst (replay M' batch' s'))) \<longrightarrow>
            snd (replay M' batch' s') = None) \<and>
         snd (forward M' u rnd input s') \<noteq> Inl FitFailed \<and>
         snd (backward M' len' batch' s') \<noteq> Some FitFailed \<and>
         snd (replay M' batch' s') \<noteq> Some FitFailed"
proof (intro conjI impI)
  show "snd (backward M len batch s) = None"
    using assms by (rule backward_fit_returns)
  show "list_ex is_Fit (calls (run M ops (fst (backward M len batch s))))"
    using assms by (rule run_keeps_fit)
  show "snd (replay M' batch' s') = None"
    if "list_ex is_Fit (new_calls s' (fst (replay M' batch' s')))"
    using that by (rule replay_fit_returns)
  show "snd (forward M' u rnd input s') \<noteq> Inl FitFailed"
    using forward_error[of M' u rnd input s' FitFailed] by auto
  show "snd (backward M' len' batch' s') \<noteq> Some FitFailed"
    using backward_error[of M' len' batch' s' FitFailed] by auto
  show "snd (replay M' batch' s') \<noteq> Some FitFailed"
    using replay_error[of M' batch' s' FitFailed] by auto
qed (simp_all add: fit_settled_def new_calls_def)

theorem fit_settles_after_return_witness:
  "list_ex is_Fit (new_calls (two_steps three_actions)
     (fst (backward three_actions 1 [first_memento] (two_steps three_actions)))) \<and>
   snd (backward three_actions 1 [first_memento] (two_steps three_actions)) = None \<and>
   list_ex is_Fit (calls (run three_actions [AddReward 1]
     (fst (backward three_actions 1 [first_memento] (two_steps three_actions))))) \<and>
   fit_settled Rejected (run three_actions [AddReward 1]
     (fst (backward three_actions 1 [first_memento] (two_steps three_actions))))
     = (run three_actions [AddReward 1]
          (fst (backward three_actions 1 [first_memento] (two_steps three_actions))),
        Some FitFailed) \<and>
   samples (lossesHistory (fst (fit_settled (Resolved 7) (run three_actions [AddReward 1]
     (fst (backward three_actions 1 [first_memento] (two_steps three_actions))))))) = [7]"
proof -
  let ?s = "two_steps three_actions"
  let ?t = "run three_actions [AddReward 1] (fst (backward three_actions 1 [first_memento] ?s))"
  have h: "list_ex is_Fit (new_calls ?s (fst (backward three_actions 1 [first_memento] ?s)))"
    by (simp add: eval_defs two_steps_def first_memento_def three_actions_def
        learning_example_def config_example_def)
  note g = fit_settles_after_return[OF h, of "[AddReward 1]" 7]
  have w: "lossesHistory ?t = new_TypedWindow HIST_WINDOW_SIZE HIST_WINDOW_MIN_SIZE"
    by (simp add: run_Cons run_Nil addReward_def backward_other two_steps_def forward_other
        Agent_def Let_def)
  from g have r: "fit_settled (Resolved 7) ?t = (?t\<lparr>lossesHistory := add 7 (lossesHistory ?t)\<rparr>, None)"
    by blast
  have "samples (lossesHistory (fst (fit_settled (Resolved 7) ?t))) = [7]"
    unfolding r using w by (simp add: add_def Let_def new_TypedWindow_def HIST_WINDOW_SIZE_def)
  moreover from g have "snd (backward three_actions 1 [first_memento] ?s) = None"
    and "list_ex is_Fit (calls ?t)"
    and "fit_settled Rejected ?t = (?t, Some FitFailed)"
    by blast+
  ultimately show ?thesis using h by blast
qed

subsection \<open>C10: the flag done is never set\<close>

text \<open>
  C10. The constructor sets done to false and no operation changes it: in every state
  that a sequence of operations reaches from the constructor, done is false and the
  target that createInOutFromMemento computes is the memento's reward plus gamma times
  the highest value of the prediction for nextState, never the reward alone by the
  done branch.
\<close>

theorem done_never_set:
  "\<not> done_flag (run M ops (Agent cfg)) \<and>
   target M (run M ops (Agent cfg)) m =
     reward m + gamma (learningConfig cfg) * getHighestValue (predict M (nextState m))"
  by (simp add: target_def run_done_flag run_schedule Agent_fields)

end
